theory Spec2Isabelle
  imports
    Main
    "HOL-Library.AList"
    "HOL-Library.Word"
    "HOL-Library.Char_ord"
    "HOL-Library.List_Lexorder"
    "HOL-Library.Multiset"
begin

section \<open>The incident operations of the PagerDuty client (incident.go)\<close>

text \<open>
  The file incident.go is a layer of thin operations over three collaborators that live
  outside it: the client's HTTP verbs \<^verbatim>\<open>c.get\<close>, \<^verbatim>\<open>c.post\<close>, \<^verbatim>\<open>c.put\<close> and its
  \<^verbatim>\<open>c.decodeJSON\<close>, Go's encoding/json, and the query encoder
  (\<^verbatim>\<open>query.Values\<close> of go-querystring followed by \<^verbatim>\<open>url.Values.Encode\<close>).
  Each operation builds one request, hands it to the client, and decodes the answer
  into a Go type declared in the file. The embedding keeps that shape: a request is a
  record, the client is a record that holds the remote service as a function and the
  list of the requests it was handed, and every operation returns its result together
  with the updated client.
\<close>

subsection \<open>JSON values, errors, contexts\<close>

text \<open>
  JSON numbers are restricted to integers; an object keeps its members in the order of
  the text, duplicates included.
\<close>

datatype json =
    JNull
  | JBool bool
  | JNum int
  | JStr string
  | JArr "json list"
  | JObj "(string \<times> json) list"

text \<open>
  The errors an operation can return. The first four come from the gateway and are
  passed on unchanged. \<open>MissingEnvelopeKey\<close> carries the message of the
  \<^verbatim>\<open>fmt.Errorf\<close> call that reports an absent envelope key.
\<close>

datatype error =
    TransportError
  | HTTPStatusError nat
  | Cancelled
  | DeadlineExceeded
  | DecodeError
  | MissingEnvelopeKey string

text \<open>
  A \<^verbatim>\<open>context.Context\<close>: \<open>Background\<close> is \<^verbatim>\<open>context.Background()\<close>, which is never
  cancelled; \<open>Derived n\<close> is a context the caller made (with a cancel function or a
  deadline), named by \<open>n\<close>.
\<close>

datatype "context" = Background | Derived nat

subsection \<open>The gateway: requests, responses, the client\<close>

datatype http_method = GET | POST | PUT

text \<open>
  \<open>req_body\<close> is the JSON the payload marshals to (\<open>None\<close> for a GET);
  \<open>req_headers\<close> is the \<^verbatim>\<open>map[string]string\<close> of extra headers, the empty map for
  \<^verbatim>\<open>nil\<close>.
\<close>

record request =
  req_ctx :: "context"
  req_method :: http_method
  req_path :: string
  req_body :: "json option"
  req_headers :: "string \<rightharpoonup> string"

text \<open>
  A response that reached the client with a success status. \<open>resp_body\<close> is the parsed
  body, \<open>None\<close> when the body is not well-formed JSON.
\<close>

record response =
  resp_body :: "json option"

text \<open>
  The client. \<open>service\<close> is everything behind the gateway (transport, authentication,
  the remote service, the reaction to a cancelled context); \<open>calls\<close> lists the requests
  handed to the gateway so far, oldest first.
\<close>

record Client =
  service :: "request \<Rightarrow> error + response"
  calls :: "request list"

definition do_request :: "Client \<Rightarrow> request \<Rightarrow> (error + response) \<times> Client" where
  "do_request c r = (service c r, c\<lparr>calls := calls c @ [r]\<rparr>)"

text \<open>
  Modelled from the spec: \<^verbatim>\<open>get\<close>, \<^verbatim>\<open>post\<close> and \<^verbatim>\<open>put\<close> are methods of the client
  declared outside incident.go. Section 6: the gateway exposes \<^verbatim>\<open>get(ctx, path)\<close>,
  \<^verbatim>\<open>post(ctx, path, body, headers)\<close> and \<^verbatim>\<open>put(ctx, path, body, headers)\<close>, each one
  call that returns a response or an error.
\<close>

definition get :: "Client \<Rightarrow> context \<Rightarrow> string \<Rightarrow> (error + response) \<times> Client" where
  "get c ctx path =
     do_request c \<lparr>req_ctx = ctx, req_method = GET, req_path = path,
                   req_body = None, req_headers = Map.empty\<rparr>"

definition post ::
  "Client \<Rightarrow> context \<Rightarrow> string \<Rightarrow> json \<Rightarrow> (string \<rightharpoonup> string) \<Rightarrow> (error + response) \<times> Client" where
  "post c ctx path payload headers =
     do_request c \<lparr>req_ctx = ctx, req_method = POST, req_path = path,
                   req_body = Some payload, req_headers = headers\<rparr>"

definition put ::
  "Client \<Rightarrow> context \<Rightarrow> string \<Rightarrow> json \<Rightarrow> (string \<rightharpoonup> string) \<Rightarrow> (error + response) \<times> Client" where
  "put c ctx path payload headers =
     do_request c \<lparr>req_ctx = ctx, req_method = PUT, req_path = path,
                   req_body = Some payload, req_headers = headers\<rparr>"

subsection \<open>Decoding a response into a Go type\<close>

text \<open>
  A Go type as the decoder sees it: its zero value, and how a JSON value is unmarshalled
  into an existing value of the type. The entity types whose declarations reach outside
  incident.go (Incident, IncidentAlert, LogEntry, ResponderRequest) stay type variables
  and are handed to the operations as such a descriptor.
\<close>

record 'a gotype =
  zero :: 'a
  unmarshal :: "json \<Rightarrow> 'a \<Rightarrow> error + 'a"

text \<open>
  Modelled from the spec: \<^verbatim>\<open>decodeJSON\<close> is a method of the client declared outside
  incident.go. Section 1 leaves JSON deserialization to the collaborator and section 7
  names its failure, \<open>DecodeError\<close> (malformed JSON or a field-type mismatch). The
  envelope check of section 4.3 is not part of it: it is handed the response and the
  value to decode into, never an expected key, and \<^verbatim>\<open>GetIncidentWithContext\<close> makes that
  check itself after the call. What the decoding does with the value is the rule of
  encoding/json for the value's Go type, given below.
\<close>

definition decodeJSON :: "'a gotype \<Rightarrow> response \<Rightarrow> 'a \<Rightarrow> error + 'a" where
  "decodeJSON T resp v =
     (case resp_body resp of
        None \<Rightarrow> Inl DecodeError
      | Some j \<Rightarrow> unmarshal T j v)"

text \<open>
  encoding/json on a struct: \<^verbatim>\<open>null\<close> leaves the value as it is, an object is read
  member by member, anything else is a type mismatch. A member is stored in the field
  whose JSON name equals the key, or else in the first field whose name equals it up to
  the case of ASCII letters; a key that names no field is skipped.
\<close>

definition to_lower :: "char \<Rightarrow> char" where
  "to_lower ch =
     (if 65 \<le> (of_char ch :: nat) \<and> (of_char ch :: nat) \<le> 90
      then char_of (of_char ch + (32 :: nat)) else ch)"

definition equal_fold :: "string \<Rightarrow> string \<Rightarrow> bool" where
  "equal_fold a b = (map to_lower a = map to_lower b)"

type_synonym 'r field = "string \<times> (json \<Rightarrow> 'r \<Rightarrow> error + 'r)"

definition find_field :: "'r field list \<Rightarrow> string \<Rightarrow> 'r field option" where
  "find_field fs k =
     (case find (\<lambda>f. fst f = k) fs of
        Some f \<Rightarrow> Some f
      | None \<Rightarrow> find (\<lambda>f. equal_fold (fst f) k) fs)"

fun decode_members :: "'r field list \<Rightarrow> (string \<times> json) list \<Rightarrow> 'r \<Rightarrow> error + 'r" where
  "decode_members fs [] r = Inr r"
| "decode_members fs ((k, v) # kvs) r =
     (case find_field fs k of
        None \<Rightarrow> decode_members fs kvs r
      | Some f \<Rightarrow>
          (case snd f v r of
             Inl err \<Rightarrow> Inl err
           | Inr r' \<Rightarrow> decode_members fs kvs r'))"

definition struct_type :: "'r \<Rightarrow> 'r field list \<Rightarrow> 'r gotype" where
  "struct_type z fs =
     \<lparr>zero = z,
      unmarshal = (\<lambda>j r. case j of
                            JNull \<Rightarrow> Inr r
                          | JObj kvs \<Rightarrow> decode_members fs kvs r
                          | _ \<Rightarrow> Inl DecodeError)\<rparr>"

text \<open>
  encoding/json on \<^verbatim>\<open>map[string]T\<close>: \<^verbatim>\<open>null\<close> gives the nil map; every member of an
  object is decoded into a fresh zero \<open>T\<close> and stored under its key, a later
  duplicate replacing an earlier one.
\<close>

fun decode_entries :: "'a gotype \<Rightarrow> (string \<times> json) list \<Rightarrow> (string \<rightharpoonup> 'a) \<Rightarrow> error + (string \<rightharpoonup> 'a)" where
  "decode_entries T [] m = Inr m"
| "decode_entries T ((k, v) # kvs) m =
     (case unmarshal T v (zero T) of
        Inl err \<Rightarrow> Inl err
      | Inr x \<Rightarrow> decode_entries T kvs (m(k \<mapsto> x)))"

definition map_type :: "'a gotype \<Rightarrow> (string \<rightharpoonup> 'a) gotype" where
  "map_type T =
     \<lparr>zero = Map.empty,
      unmarshal = (\<lambda>j m. case j of
                            JNull \<Rightarrow> Inr Map.empty
                          | JObj kvs \<Rightarrow> decode_entries T kvs m
                          | _ \<Rightarrow> Inl DecodeError)\<rparr>"

text \<open>
  encoding/json on \<^verbatim>\<open>[]T\<close>: \<^verbatim>\<open>null\<close> gives the nil slice, an array is decoded element by
  element. Every slice decoded here starts out nil, so each element is decoded into a
  zero \<open>T\<close>. A nil slice and an empty slice are both the empty list.
\<close>

fun decode_elements :: "'a gotype \<Rightarrow> json list \<Rightarrow> error + 'a list" where
  "decode_elements T [] = Inr []"
| "decode_elements T (j # js) =
     (case unmarshal T j (zero T) of
        Inl err \<Rightarrow> Inl err
      | Inr x \<Rightarrow>
          (case decode_elements T js of
             Inl err \<Rightarrow> Inl err
           | Inr xs \<Rightarrow> Inr (x # xs)))"

definition slice_type :: "'a gotype \<Rightarrow> 'a list gotype" where
  "slice_type T =
     \<lparr>zero = [],
      unmarshal = (\<lambda>j xs. case j of
                             JNull \<Rightarrow> Inr []
                           | JArr js \<Rightarrow> decode_elements T js
                           | _ \<Rightarrow> Inl DecodeError)\<rparr>"

text \<open>encoding/json on \<^verbatim>\<open>*T\<close>: \<^verbatim>\<open>null\<close> gives nil, anything else is decoded into the
  value pointed to, a new zero \<open>T\<close> when the pointer is nil.\<close>

definition pointer_type :: "'a gotype \<Rightarrow> 'a option gotype" where
  "pointer_type T =
     \<lparr>zero = None,
      unmarshal = (\<lambda>j p. case j of
                            JNull \<Rightarrow> Inr None
                          | _ \<Rightarrow>
                              (case unmarshal T j (case p of None \<Rightarrow> zero T | Some x \<Rightarrow> x) of
                                 Inl err \<Rightarrow> Inl err
                               | Inr x \<Rightarrow> Inr (Some x)))\<rparr>"

text \<open>The scalar types: \<^verbatim>\<open>string\<close>, \<^verbatim>\<open>uint\<close> (64 bits) and \<^verbatim>\<open>bool\<close>.\<close>

definition string_type :: "string gotype" where
  "string_type =
     \<lparr>zero = [],
      unmarshal = (\<lambda>j s. case j of JNull \<Rightarrow> Inr s | JStr t \<Rightarrow> Inr t | _ \<Rightarrow> Inl DecodeError)\<rparr>"

definition uint_type :: "64 word gotype" where
  "uint_type =
     \<lparr>zero = 0,
      unmarshal = (\<lambda>j w. case j of
                            JNull \<Rightarrow> Inr w
                          | JNum n \<Rightarrow> (if 0 \<le> n \<and> n < 2 ^ 64 then Inr (word_of_int n)
                                        else Inl DecodeError)
                          | _ \<Rightarrow> Inl DecodeError)\<rparr>"

definition bool_type :: "bool gotype" where
  "bool_type =
     \<lparr>zero = False,
      unmarshal = (\<lambda>j b. case j of JNull \<Rightarrow> Inr b | JBool t \<Rightarrow> Inr t | _ \<Rightarrow> Inl DecodeError)\<rparr>"

text \<open>A struct field of type \<open>'a\<close>, read with \<open>sel\<close> and written with \<open>upd\<close>, under
  the JSON name \<open>name\<close>.\<close>

definition field :: "string \<Rightarrow> 'a gotype \<Rightarrow> ('r \<Rightarrow> 'a) \<Rightarrow> ('a \<Rightarrow> 'r \<Rightarrow> 'r) \<Rightarrow> 'r field" where
  "field name T sel upd =
     (name, \<lambda>j r. case unmarshal T j (sel r) of
                     Inl err \<Rightarrow> Inl err
                   | Inr x \<Rightarrow> Inr (upd x r))"

subsection \<open>The query encoder\<close>

text \<open>
  The list operations call \<^verbatim>\<open>query.Values(o)\<close> (go-querystring) and then
  \<^verbatim>\<open>v.Encode()\<close> (net/url). Both are libraries outside the repository; what follows is
  their behaviour on the field types and tag options that the option structs of
  incident.go use: \<^verbatim>\<open>string\<close>, \<^verbatim>\<open>[]string\<close>, \<^verbatim>\<open>uint\<close> and \<^verbatim>\<open>bool\<close> fields tagged
  \<^verbatim>\<open>omitempty\<close>, the slices also \<^verbatim>\<open>brackets\<close>.

  \<^verbatim>\<open>url.Values\<close> is \<^verbatim>\<open>map[string][]string\<close>. It is kept as an association list; only
  the map it stands for matters, since a Go map has no order of its own.
\<close>

type_synonym Values = "(string \<times> string list) list"

definition get_values :: "Values \<Rightarrow> string \<Rightarrow> string list" where
  "get_values v key = (case map_of v key of None \<Rightarrow> [] | Some vs \<Rightarrow> vs)"

text \<open>\<^verbatim>\<open>Values.Add\<close>: \<^verbatim>\<open>v[key] = append(v[key], value)\<close>.\<close>

definition Add :: "string \<Rightarrow> string \<Rightarrow> Values \<Rightarrow> Values" where
  "Add key val v = AList.update key (get_values v key @ [val]) v"

text \<open>\<^verbatim>\<open>fmt.Sprint\<close> of an unsigned integer: its decimal digits.\<close>

definition digit :: "nat \<Rightarrow> char" where
  "digit d = ''0123456789'' ! d"

fun decimal :: "nat \<Rightarrow> string" where
  "decimal n =
     (if n < 10 then [digit n]
      else decimal (n div 10) @ [digit (n mod 10)])"

declare decimal.simps [simp del]

text \<open>
  One struct field in \<^verbatim>\<open>reflectValue\<close>: a field tagged \<^verbatim>\<open>omitempty\<close> is skipped when
  it is empty (the empty string, a slice of length 0, zero, false); a slice tagged
  \<^verbatim>\<open>brackets\<close> adds each element under the name followed by \<^verbatim>\<open>[]\<close>, in the order of the
  slice; any other field adds its value under its name.
\<close>

definition string_param :: "string \<Rightarrow> string \<Rightarrow> Values \<Rightarrow> Values" where
  "string_param name s v = (if s = [] then v else Add name s v)"

definition brackets_param :: "string \<Rightarrow> string list \<Rightarrow> Values \<Rightarrow> Values" where
  "brackets_param name xs v =
     (if xs = [] then v else fold (\<lambda>x. Add (name @ ''[]'') x) xs v)"

definition uint_param :: "string \<Rightarrow> 64 word \<Rightarrow> Values \<Rightarrow> Values" where
  "uint_param name n v = (if n = 0 then v else Add name (decimal (unat n)) v)"

definition bool_param :: "string \<Rightarrow> bool \<Rightarrow> Values \<Rightarrow> Values" where
  "bool_param name b v = (if b then Add name ''true'' v else v)"

text \<open>The fields of a struct are visited in the order given, starting from no values.\<close>

definition reflect_fields :: "(Values \<Rightarrow> Values) list \<Rightarrow> Values" where
  "reflect_fields fs = fold (\<lambda>f v. f v) fs []"

text \<open>
  \<^verbatim>\<open>url.QueryEscape\<close>: letters, digits and \<^verbatim>\<open>- _ . ~\<close> stay, a space becomes \<^verbatim>\<open>+\<close>, every
  other byte becomes \<^verbatim>\<open>%XY\<close> with upper-case hexadecimal digits.
\<close>

definition alphanum :: "char \<Rightarrow> bool" where
  "alphanum ch =
     (let n = (of_char ch :: nat)
      in (97 \<le> n \<and> n \<le> 122) \<or> (65 \<le> n \<and> n \<le> 90) \<or> (48 \<le> n \<and> n \<le> 57))"

definition shouldEscape :: "char \<Rightarrow> bool" where
  "shouldEscape ch =
     (if alphanum ch then False
      else if ch = CHR ''-'' \<or> ch = CHR ''_'' \<or> ch = CHR ''.'' \<or> ch = CHR ''~'' then False
      else True)"

definition upperhex :: "nat \<Rightarrow> char" where
  "upperhex n = ''0123456789ABCDEF'' ! n"

fun QueryEscape :: "string \<Rightarrow> string" where
  "QueryEscape [] = []"
| "QueryEscape (ch # s) =
     (if shouldEscape ch then
        (if ch = CHR '' '' then CHR ''+'' # QueryEscape s
         else CHR ''%'' # upperhex ((of_char ch :: nat) div 16)
                # upperhex ((of_char ch :: nat) mod 16) # QueryEscape s)
      else ch # QueryEscape s)"

text \<open>
  \<^verbatim>\<open>Values.Encode\<close>: the keys are collected and sorted, and for each key, in that order,
  each of its values, in the order they were added, is written as
  \<^verbatim>\<open>QueryEscape(key)=QueryEscape(value)\<close>, with \<^verbatim>\<open>&\<close> between the pairs.
\<close>

definition sorted_keys :: "Values \<Rightarrow> string list" where
  "sorted_keys v = sort (remdups (map fst v))"

definition pairs :: "Values \<Rightarrow> (string \<times> string) list" where
  "pairs v = concat (map (\<lambda>k. map (Pair k) (get_values v k)) (sorted_keys v))"

definition encode_pair :: "string \<times> string \<Rightarrow> string" where
  "encode_pair p = QueryEscape (fst p) @ ''='' @ QueryEscape (snd p)"

fun join_amp :: "string list \<Rightarrow> string" where
  "join_amp [] = []"
| "join_amp [x] = x"
| "join_amp (x # y # ys) = x @ ''&'' @ join_amp (y # ys)"

definition Encode :: "Values \<Rightarrow> string" where
  "Encode v = join_amp (map encode_pair (pairs v))"

subsection \<open>The data model\<close>

text \<open>
  Modelled from the spec: \<^verbatim>\<open>APIObject\<close> is declared outside incident.go. Section 3 calls
  it a reference to another entity; incident.go reads its \<open>Summary\<close> field. Its fields
  are strings, each under its lower-case JSON name and left out of the JSON when empty.
\<close>

record APIObject =
  ID :: string
  Type :: string
  Summary :: string
  Self :: string
  HTMLURL :: string

text \<open>
  Modelled from the spec: \<^verbatim>\<open>APIListObject\<close> is declared outside incident.go. Sections 3
  and 4.2(c): it carries the pagination fields offset and limit, the total count and the
  "more" flag, and as query parameters they follow the omit-if-zero rule.
\<close>

record APIListObject =
  Limit :: "64 word"
  Offset :: "64 word"
  More :: bool
  Total :: "64 word"

record ListIncidentsOptions = APIListObject +
  Since :: string
  Until :: string
  DateRange :: string
  Statuses :: "string list"
  IncidentKey :: string
  ServiceIDs :: "string list"
  TeamIDs :: "string list"
  UserIDs :: "string list"
  Urgencies :: "string list"
  TimeZone :: string
  SortBy :: string
  Includes :: "string list"

record ListIncidentAlertsOptions = APIListObject +
  Statuses :: "string list"
  SortBy :: string
  Includes :: "string list"

record ListIncidentLogEntriesOptions = APIListObject +
  Includes :: "string list"
  IsOverview :: bool
  TimeZone :: string
  Since :: string
  Until :: string

record IncidentNote =
  ID :: string
  User :: APIObject
  Content :: string
  CreatedAt :: string

text \<open>\<open>From\<close> is tagged \<^verbatim>\<open>json:"-"\<close>. \<open>Targets\<close> is the JSON that the
  \<^verbatim>\<open>[]ResponderRequestTarget\<close> value marshals to.\<close>

record ResponderRequestOptions =
  From :: string
  Message :: string
  RequesterID :: string
  Targets :: json

text \<open>
  The payloads whose declarations reach into types outside incident.go are taken as
  the JSON value they marshal to: \<^verbatim>\<open>*CreateIncidentOptions\<close>,
  \<^verbatim>\<open>[]ManageIncidentsOptions\<close>, \<^verbatim>\<open>[]MergeIncidentsOptions\<close> and \<^verbatim>\<open>*IncidentAlertList\<close>.
\<close>

type_synonym CreateIncidentOptions = json
type_synonym ManageIncidentsOptions_list = json
type_synonym MergeIncidentsOptions_list = json
type_synonym IncidentAlertList = json

text \<open>The response structs.\<close>

record 'i createIncidentResponse =
  Incident :: 'i

record 'i ListIncidentsResponse = APIListObject +
  Incidents :: "'i list"

record CreateIncidentNoteResponse =
  IncidentNote :: IncidentNote

record 'a IncidentAlertResponse =
  IncidentAlert :: "'a option"

record 'a ListAlertsResponse = APIListObject +
  Alerts :: "'a list"

record 'l ListIncidentLogEntriesResponse = APIListObject +
  LogEntries :: "'l list"

record 'r ResponderRequestResponse =
  ResponderRequest :: 'r

subsection \<open>The query parameters of the option structs\<close>

text \<open>\<^verbatim>\<open>query.Values\<close> visits the fields in the order of the declaration; an embedded
  struct is put aside and visited after the others.\<close>

definition APIListObject_params :: "'z APIListObject_scheme \<Rightarrow> (Values \<Rightarrow> Values) list" where
  "APIListObject_params a =
     [uint_param ''limit'' (Limit a),
      uint_param ''offset'' (Offset a),
      bool_param ''more'' (More a),
      uint_param ''total'' (Total a)]"

definition ListIncidentsOptions_Values :: "ListIncidentsOptions \<Rightarrow> Values" where
  "ListIncidentsOptions_Values opts =
     reflect_fields
       ([string_param ''since'' (ListIncidentsOptions.Since opts),
         string_param ''until'' (ListIncidentsOptions.Until opts),
         string_param ''date_range'' (DateRange opts),
         brackets_param ''statuses'' (ListIncidentsOptions.Statuses opts),
         string_param ''incident_key'' (IncidentKey opts),
         brackets_param ''service_ids'' (ServiceIDs opts),
         brackets_param ''team_ids'' (TeamIDs opts),
         brackets_param ''user_ids'' (UserIDs opts),
         brackets_param ''urgencies'' (Urgencies opts),
         string_param ''time_zone'' (ListIncidentsOptions.TimeZone opts),
         string_param ''sort_by'' (ListIncidentsOptions.SortBy opts),
         brackets_param ''include'' (ListIncidentsOptions.Includes opts)]
        @ APIListObject_params opts)"

definition ListIncidentAlertsOptions_Values :: "ListIncidentAlertsOptions \<Rightarrow> Values" where
  "ListIncidentAlertsOptions_Values opts =
     reflect_fields
       ([brackets_param ''statuses'' (ListIncidentAlertsOptions.Statuses opts),
         string_param ''sort_by'' (ListIncidentAlertsOptions.SortBy opts),
         brackets_param ''include'' (ListIncidentAlertsOptions.Includes opts)]
        @ APIListObject_params opts)"

definition ListIncidentLogEntriesOptions_Values :: "ListIncidentLogEntriesOptions \<Rightarrow> Values" where
  "ListIncidentLogEntriesOptions_Values opts =
     reflect_fields
       ([brackets_param ''include'' (ListIncidentLogEntriesOptions.Includes opts),
         bool_param ''is_overview'' (IsOverview opts),
         string_param ''time_zone'' (ListIncidentLogEntriesOptions.TimeZone opts),
         string_param ''since'' (ListIncidentLogEntriesOptions.Since opts),
         string_param ''until'' (ListIncidentLogEntriesOptions.Until opts)]
        @ APIListObject_params opts)"

subsection \<open>The Go types of the responses\<close>

definition APIObject_zero :: APIObject where
  "APIObject_zero = \<lparr>APIObject.ID = [], Type = [], Summary = [], Self = [], HTMLURL = []\<rparr>"

definition APIObject_type :: "APIObject gotype" where
  "APIObject_type =
     struct_type APIObject_zero
       [field ''id'' string_type APIObject.ID (\<lambda>x r. r\<lparr>APIObject.ID := x\<rparr>),
        field ''type'' string_type Type (\<lambda>x r. r\<lparr>Type := x\<rparr>),
        field ''summary'' string_type Summary (\<lambda>x r. r\<lparr>Summary := x\<rparr>),
        field ''self'' string_type Self (\<lambda>x r. r\<lparr>Self := x\<rparr>),
        field ''html_url'' string_type HTMLURL (\<lambda>x r. r\<lparr>HTMLURL := x\<rparr>)]"

definition IncidentNote_zero :: IncidentNote where
  "IncidentNote_zero = \<lparr>ID = [], User = APIObject_zero, Content = [], CreatedAt = []\<rparr>"

definition IncidentNote_type :: "IncidentNote gotype" where
  "IncidentNote_type =
     struct_type IncidentNote_zero
       [field ''id'' string_type IncidentNote.ID (\<lambda>x r. r\<lparr>IncidentNote.ID := x\<rparr>),
        field ''user'' APIObject_type User (\<lambda>x r. r\<lparr>User := x\<rparr>),
        field ''content'' string_type Content (\<lambda>x r. r\<lparr>Content := x\<rparr>),
        field ''created_at'' string_type CreatedAt (\<lambda>x r. r\<lparr>CreatedAt := x\<rparr>)]"

definition APIListObject_fields :: "'z APIListObject_scheme field list" where
  "APIListObject_fields =
     [field ''limit'' uint_type Limit (\<lambda>x r. r\<lparr>Limit := x\<rparr>),
      field ''offset'' uint_type Offset (\<lambda>x r. r\<lparr>Offset := x\<rparr>),
      field ''more'' bool_type More (\<lambda>x r. r\<lparr>More := x\<rparr>),
      field ''total'' uint_type Total (\<lambda>x r. r\<lparr>Total := x\<rparr>)]"

definition createIncidentResponse_type :: "'i gotype \<Rightarrow> 'i createIncidentResponse gotype" where
  "createIncidentResponse_type T =
     struct_type \<lparr>Incident = zero T\<rparr>
       [field ''incident'' T Incident (\<lambda>x r. r\<lparr>Incident := x\<rparr>)]"

definition ListIncidentsResponse_type :: "'i gotype \<Rightarrow> 'i ListIncidentsResponse gotype" where
  "ListIncidentsResponse_type T =
     struct_type \<lparr>Limit = 0, Offset = 0, More = False, Total = 0, Incidents = []\<rparr>
       (APIListObject_fields
        @ [field ''incidents'' (slice_type T) Incidents (\<lambda>x r. r\<lparr>Incidents := x\<rparr>)])"

definition CreateIncidentNoteResponse_type :: "CreateIncidentNoteResponse gotype" where
  "CreateIncidentNoteResponse_type =
     struct_type \<lparr>IncidentNote = IncidentNote_zero\<rparr>
       [field ''note'' IncidentNote_type IncidentNote (\<lambda>x r. r\<lparr>IncidentNote := x\<rparr>)]"

definition IncidentAlertResponse_type :: "'a gotype \<Rightarrow> 'a IncidentAlertResponse gotype" where
  "IncidentAlertResponse_type T =
     struct_type \<lparr>IncidentAlert = None\<rparr>
       [field ''alert'' (pointer_type T) IncidentAlert (\<lambda>x r. r\<lparr>IncidentAlert := x\<rparr>)]"

definition ListAlertsResponse_type :: "'a gotype \<Rightarrow> 'a ListAlertsResponse gotype" where
  "ListAlertsResponse_type T =
     struct_type \<lparr>Limit = 0, Offset = 0, More = False, Total = 0, Alerts = []\<rparr>
       (APIListObject_fields
        @ [field ''alerts'' (slice_type T) Alerts (\<lambda>x r. r\<lparr>Alerts := x\<rparr>)])"

definition ListIncidentLogEntriesResponse_type ::
  "'l gotype \<Rightarrow> 'l ListIncidentLogEntriesResponse gotype" where
  "ListIncidentLogEntriesResponse_type T =
     struct_type \<lparr>Limit = 0, Offset = 0, More = False, Total = 0, LogEntries = []\<rparr>
       (APIListObject_fields
        @ [field ''log_entries'' (slice_type T) LogEntries (\<lambda>x r. r\<lparr>LogEntries := x\<rparr>)])"

definition ResponderRequestResponse_type :: "'r gotype \<Rightarrow> 'r ResponderRequestResponse gotype" where
  "ResponderRequestResponse_type T =
     struct_type \<lparr>ResponderRequest = zero T\<rparr>
       [field ''responder_request'' T ResponderRequestResponse.ResponderRequest
          (\<lambda>x r. r\<lparr>ResponderRequestResponse.ResponderRequest := x\<rparr>)]"

subsection \<open>The payloads as JSON\<close>

text \<open>encoding/json on a string field tagged \<^verbatim>\<open>omitempty\<close>: the member is left out when
  the string is empty.\<close>

definition omitempty :: "string \<Rightarrow> string \<Rightarrow> (string \<times> json) list" where
  "omitempty name s = (if s = [] then [] else [(name, JStr s)])"

definition marshal_APIObject :: "APIObject \<Rightarrow> json" where
  "marshal_APIObject a =
     JObj (omitempty ''id'' (APIObject.ID a) @ omitempty ''type'' (Type a)
           @ omitempty ''summary'' (Summary a) @ omitempty ''self'' (Self a)
           @ omitempty ''html_url'' (HTMLURL a))"

text \<open>A struct-valued field is never empty, so \<^verbatim>\<open>user\<close> is always present.\<close>

definition marshal_IncidentNote :: "IncidentNote \<Rightarrow> json" where
  "marshal_IncidentNote n =
     JObj (omitempty ''id'' (IncidentNote.ID n) @ [(''user'', marshal_APIObject (User n))]
           @ omitempty ''content'' (Content n) @ omitempty ''created_at'' (CreatedAt n))"

definition marshal_ResponderRequestOptions :: "ResponderRequestOptions \<Rightarrow> json" where
  "marshal_ResponderRequestOptions r =
     JObj [(''message'', JStr (Message r)),
           (''requester_id'', JStr (RequesterID r)),
           (''responder_request_targets'', Targets r)]"

subsection \<open>The operations\<close>

text \<open>
  Each operation takes the client first and returns its result with the client after
  the call. An operation whose Go result type is one of the type variables takes the
  descriptor of that type as its first argument. \<^verbatim>\<open>query.Values\<close> fails only on a value
  that is not a struct, so the list operations have no error branch for it.
\<close>

definition ListIncidentsWithContext ::
  "'i gotype \<Rightarrow> Client \<Rightarrow> context \<Rightarrow> ListIncidentsOptions
     \<Rightarrow> (error + 'i ListIncidentsResponse) \<times> Client" where
  "ListIncidentsWithContext T c ctx opts =
     (let v = ListIncidentsOptions_Values opts
      in case get c ctx (''/incidents?'' @ Encode v) of
           (Inl err, c') \<Rightarrow> (Inl err, c')
         | (Inr resp, c') \<Rightarrow>
             (case decodeJSON (ListIncidentsResponse_type T) resp
                     (zero (ListIncidentsResponse_type T)) of
                Inl err \<Rightarrow> (Inl err, c')
              | Inr result \<Rightarrow> (Inr result, c')))"

definition ListIncidents ::
  "'i gotype \<Rightarrow> Client \<Rightarrow> ListIncidentsOptions \<Rightarrow> (error + 'i ListIncidentsResponse) \<times> Client" where
  "ListIncidents T c opts = ListIncidentsWithContext T c Background opts"

definition CreateIncidentWithContext ::
  "'i gotype \<Rightarrow> Client \<Rightarrow> context \<Rightarrow> string \<Rightarrow> CreateIncidentOptions \<Rightarrow> (error + 'i) \<times> Client" where
  "CreateIncidentWithContext T c ctx from opts =
     (let h = [''From'' \<mapsto> from];
          d = JObj [(''incident'', opts)]
      in case post c ctx ''/incidents'' d h of
           (Inl err, c') \<Rightarrow> (Inl err, c')
         | (Inr resp, c') \<Rightarrow>
             (case decodeJSON (createIncidentResponse_type T) resp
                     (zero (createIncidentResponse_type T)) of
                Inl err \<Rightarrow> (Inl err, c')
              | Inr ii \<Rightarrow> (Inr (Incident ii), c')))"

definition CreateIncident ::
  "'i gotype \<Rightarrow> Client \<Rightarrow> string \<Rightarrow> CreateIncidentOptions \<Rightarrow> (error + 'i) \<times> Client" where
  "CreateIncident T c from opts = CreateIncidentWithContext T c Background from opts"

definition ManageIncidentsWithContext ::
  "'i gotype \<Rightarrow> Client \<Rightarrow> context \<Rightarrow> string \<Rightarrow> ManageIncidentsOptions_list
     \<Rightarrow> (error + 'i ListIncidentsResponse) \<times> Client" where
  "ManageIncidentsWithContext T c ctx from incidents =
     (let d = JObj [(''incidents'', incidents)];
          h = [''From'' \<mapsto> from]
      in case put c ctx ''/incidents'' d h of
           (Inl err, c') \<Rightarrow> (Inl err, c')
         | (Inr resp, c') \<Rightarrow>
             (case decodeJSON (ListIncidentsResponse_type T) resp
                     (zero (ListIncidentsResponse_type T)) of
                Inl err \<Rightarrow> (Inl err, c')
              | Inr result \<Rightarrow> (Inr result, c')))"

definition ManageIncidents ::
  "'i gotype \<Rightarrow> Client \<Rightarrow> string \<Rightarrow> ManageIncidentsOptions_list
     \<Rightarrow> (error + 'i ListIncidentsResponse) \<times> Client" where
  "ManageIncidents T c from incidents = ManageIncidentsWithContext T c Background from incidents"

definition MergeIncidentsWithContext ::
  "'i gotype \<Rightarrow> Client \<Rightarrow> context \<Rightarrow> string \<Rightarrow> string \<Rightarrow> MergeIncidentsOptions_list
     \<Rightarrow> (error + 'i) \<times> Client" where
  "MergeIncidentsWithContext T c ctx from id' sourceIncidents =
     (let d = JObj [(''source_incidents'', sourceIncidents)];
          h = [''From'' \<mapsto> from]
      in case put c ctx (''/incidents/'' @ id' @ ''/merge'') d h of
           (Inl err, c') \<Rightarrow> (Inl err, c')
         | (Inr resp, c') \<Rightarrow>
             (case decodeJSON (createIncidentResponse_type T) resp
                     (zero (createIncidentResponse_type T)) of
                Inl err \<Rightarrow> (Inl err, c')
              | Inr result \<Rightarrow> (Inr (Incident result), c')))"

definition MergeIncidents ::
  "'i gotype \<Rightarrow> Client \<Rightarrow> string \<Rightarrow> string \<Rightarrow> MergeIncidentsOptions_list \<Rightarrow> (error + 'i) \<times> Client" where
  "MergeIncidents T c from id' sourceIncidents =
     MergeIncidentsWithContext T c Background from id' sourceIncidents"

definition GetIncidentWithContext ::
  "'i gotype \<Rightarrow> Client \<Rightarrow> context \<Rightarrow> string \<Rightarrow> (error + 'i) \<times> Client" where
  "GetIncidentWithContext T c ctx id' =
     (case get c ctx (''/incidents/'' @ id') of
        (Inl err, c') \<Rightarrow> (Inl err, c')
      | (Inr resp, c') \<Rightarrow>
          (case decodeJSON (map_type T) resp (zero (map_type T)) of
             Inl err \<Rightarrow> (Inl err, c')
           | Inr result \<Rightarrow>
               (case result ''incident'' of
                  None \<Rightarrow>
                    (Inl (MissingEnvelopeKey ''JSON response does not have incident field''), c')
                | Some i \<Rightarrow> (Inr i, c'))))"

definition GetIncident :: "'i gotype \<Rightarrow> Client \<Rightarrow> string \<Rightarrow> (error + 'i) \<times> Client" where
  "GetIncident T c id' = GetIncidentWithContext T c Background id'"

definition ListIncidentNotesWithContext ::
  "Client \<Rightarrow> context \<Rightarrow> string \<Rightarrow> (error + IncidentNote list) \<times> Client" where
  "ListIncidentNotesWithContext c ctx id' =
     (case get c ctx (''/incidents/'' @ id' @ ''/notes'') of
        (Inl err, c') \<Rightarrow> (Inl err, c')
      | (Inr resp, c') \<Rightarrow>
          (case decodeJSON (map_type (slice_type IncidentNote_type)) resp
                  (zero (map_type (slice_type IncidentNote_type))) of
             Inl err \<Rightarrow> (Inl err, c')
           | Inr result \<Rightarrow>
               (case result ''notes'' of
                  None \<Rightarrow>
                    (Inl (MissingEnvelopeKey ''JSON response does not have notes field''), c')
                | Some notes \<Rightarrow> (Inr notes, c'))))"

definition ListIncidentNotes :: "Client \<Rightarrow> string \<Rightarrow> (error + IncidentNote list) \<times> Client" where
  "ListIncidentNotes c id' = ListIncidentNotesWithContext c Background id'"

definition ListIncidentAlertsWithContext ::
  "'a gotype \<Rightarrow> Client \<Rightarrow> context \<Rightarrow> string \<Rightarrow> ListIncidentAlertsOptions
     \<Rightarrow> (error + 'a ListAlertsResponse) \<times> Client" where
  "ListIncidentAlertsWithContext T c ctx id' opts =
     (let v = ListIncidentAlertsOptions_Values opts
      in case get c ctx (''/incidents/'' @ id' @ ''/alerts?'' @ Encode v) of
           (Inl err, c') \<Rightarrow> (Inl err, c')
         | (Inr resp, c') \<Rightarrow>
             (case decodeJSON (ListAlertsResponse_type T) resp
                     (zero (ListAlertsResponse_type T)) of
                Inl err \<Rightarrow> (Inl err, c')
              | Inr result \<Rightarrow> (Inr result, c')))"

definition ListIncidentAlertsOptions_zero :: ListIncidentAlertsOptions where
  "ListIncidentAlertsOptions_zero =
     \<lparr>Limit = 0, Offset = 0, More = False, Total = 0,
      ListIncidentAlertsOptions.Statuses = [], ListIncidentAlertsOptions.SortBy = [],
      ListIncidentAlertsOptions.Includes = []\<rparr>"

definition ListIncidentAlerts ::
  "'a gotype \<Rightarrow> Client \<Rightarrow> string \<Rightarrow> (error + 'a ListAlertsResponse) \<times> Client" where
  "ListIncidentAlerts T c id' =
     ListIncidentAlertsWithContext T c Background id' ListIncidentAlertsOptions_zero"

definition ListIncidentAlertsWithOpts ::
  "'a gotype \<Rightarrow> Client \<Rightarrow> string \<Rightarrow> ListIncidentAlertsOptions
     \<Rightarrow> (error + 'a ListAlertsResponse) \<times> Client" where
  "ListIncidentAlertsWithOpts T c id' opts = ListIncidentAlertsWithContext T c Background id' opts"

definition CreateIncidentNoteWithContext ::
  "Client \<Rightarrow> context \<Rightarrow> string \<Rightarrow> IncidentNote \<Rightarrow> (error + IncidentNote) \<times> Client" where
  "CreateIncidentNoteWithContext c ctx id' note =
     (let d = JObj [(''note'', marshal_IncidentNote note)];
          h = [''From'' \<mapsto> Summary (User note)]
      in case post c ctx (''/incidents/'' @ id' @ ''/notes'') d h of
           (Inl err, c') \<Rightarrow> (Inl err, c')
         | (Inr resp, c') \<Rightarrow>
             (case decodeJSON CreateIncidentNoteResponse_type resp
                     (zero CreateIncidentNoteResponse_type) of
                Inl err \<Rightarrow> (Inl err, c')
              | Inr result \<Rightarrow> (Inr (IncidentNote result), c')))"

definition CreateIncidentNoteWithResponse ::
  "Client \<Rightarrow> string \<Rightarrow> IncidentNote \<Rightarrow> (error + IncidentNote) \<times> Client" where
  "CreateIncidentNoteWithResponse c id' note = CreateIncidentNoteWithContext c Background id' note"

text \<open>The deprecated form returns only the error of the call, \<open>None\<close> for \<^verbatim>\<open>nil\<close>.\<close>

definition CreateIncidentNote :: "Client \<Rightarrow> string \<Rightarrow> IncidentNote \<Rightarrow> error option \<times> Client" where
  "CreateIncidentNote c id' note =
     (let headers = [''From'' \<mapsto> Summary (User note)];
          data = JObj [(''note'', marshal_IncidentNote note)]
      in case post c Background (''/incidents/'' @ id' @ ''/notes'') data headers of
           (Inl err, c') \<Rightarrow> (Some err, c')
         | (Inr resp, c') \<Rightarrow> (None, c'))"

definition SnoozeIncidentWithContext ::
  "'i gotype \<Rightarrow> Client \<Rightarrow> context \<Rightarrow> string \<Rightarrow> 64 word \<Rightarrow> (error + 'i) \<times> Client" where
  "SnoozeIncidentWithContext T c ctx id' duration =
     (let d = JObj [(''duration'', JNum (uint duration))]
      in case post c ctx (''/incidents/'' @ id' @ ''/snooze'') d Map.empty of
           (Inl err, c') \<Rightarrow> (Inl err, c')
         | (Inr resp, c') \<Rightarrow>
             (case decodeJSON (createIncidentResponse_type T) resp
                     (zero (createIncidentResponse_type T)) of
                Inl err \<Rightarrow> (Inl err, c')
              | Inr result \<Rightarrow> (Inr (Incident result), c')))"

definition SnoozeIncidentWithResponse ::
  "'i gotype \<Rightarrow> Client \<Rightarrow> string \<Rightarrow> 64 word \<Rightarrow> (error + 'i) \<times> Client" where
  "SnoozeIncidentWithResponse T c id' duration = SnoozeIncidentWithContext T c Background id' duration"

definition SnoozeIncident :: "Client \<Rightarrow> string \<Rightarrow> 64 word \<Rightarrow> error option \<times> Client" where
  "SnoozeIncident c id' duration =
     (let data = JObj [(''duration'', JNum (uint duration))]
      in case post c Background (''/incidents/'' @ id' @ ''/snooze'') data Map.empty of
           (Inl err, c') \<Rightarrow> (Some err, c')
         | (Inr resp, c') \<Rightarrow> (None, c'))"

definition ListIncidentLogEntriesWithContext ::
  "'l gotype \<Rightarrow> Client \<Rightarrow> context \<Rightarrow> string \<Rightarrow> ListIncidentLogEntriesOptions
     \<Rightarrow> (error + 'l ListIncidentLogEntriesResponse) \<times> Client" where
  "ListIncidentLogEntriesWithContext T c ctx id' opts =
     (let v = ListIncidentLogEntriesOptions_Values opts
      in case get c ctx (''/incidents/'' @ id' @ ''/log_entries?'' @ Encode v) of
           (Inl err, c') \<Rightarrow> (Inl err, c')
         | (Inr resp, c') \<Rightarrow>
             (case decodeJSON (ListIncidentLogEntriesResponse_type T) resp
                     (zero (ListIncidentLogEntriesResponse_type T)) of
                Inl err \<Rightarrow> (Inl err, c')
              | Inr result \<Rightarrow> (Inr result, c')))"

definition ListIncidentLogEntries ::
  "'l gotype \<Rightarrow> Client \<Rightarrow> string \<Rightarrow> ListIncidentLogEntriesOptions
     \<Rightarrow> (error + 'l ListIncidentLogEntriesResponse) \<times> Client" where
  "ListIncidentLogEntries T c id' opts = ListIncidentLogEntriesWithContext T c Background id' opts"

definition ResponderRequestWithContext ::
  "'r gotype \<Rightarrow> Client \<Rightarrow> context \<Rightarrow> string \<Rightarrow> ResponderRequestOptions
     \<Rightarrow> (error + 'r ResponderRequestResponse) \<times> Client" where
  "ResponderRequestWithContext T c ctx id' opts =
     (let h = [''From'' \<mapsto> From opts]
      in case post c ctx (''/incidents/'' @ id' @ ''/responder_requests'')
                (marshal_ResponderRequestOptions opts) h of
           (Inl err, c') \<Rightarrow> (Inl err, c')
         | (Inr resp, c') \<Rightarrow>
             (case decodeJSON (ResponderRequestResponse_type T) resp
                     (zero (ResponderRequestResponse_type T)) of
                Inl err \<Rightarrow> (Inl err, c')
              | Inr result \<Rightarrow> (Inr result, c')))"

definition ResponderRequest ::
  "'r gotype \<Rightarrow> Client \<Rightarrow> string \<Rightarrow> ResponderRequestOptions
     \<Rightarrow> (error + 'r ResponderRequestResponse) \<times> Client" where
  "ResponderRequest T c id' opts = ResponderRequestWithContext T c Background id' opts"

text \<open>The two alert operations go through an unexported function that also returns
  the response.\<close>

definition getIncidentAlertWithContext ::
  "'a gotype \<Rightarrow> Client \<Rightarrow> context \<Rightarrow> string \<Rightarrow> string
     \<Rightarrow> (error + 'a IncidentAlertResponse \<times> response) \<times> Client" where
  "getIncidentAlertWithContext T c ctx incidentID alertID =
     (case get c ctx (''/incidents/'' @ incidentID @ ''/alerts/'' @ alertID) of
        (Inl err, c') \<Rightarrow> (Inl err, c')
      | (Inr resp, c') \<Rightarrow>
          (case decodeJSON (IncidentAlertResponse_type T) resp
                  (zero (IncidentAlertResponse_type T)) of
             Inl err \<Rightarrow> (Inl err, c')
           | Inr result \<Rightarrow> (Inr (result, resp), c')))"

definition GetIncidentAlert ::
  "'a gotype \<Rightarrow> Client \<Rightarrow> string \<Rightarrow> string
     \<Rightarrow> (error + 'a IncidentAlertResponse \<times> response) \<times> Client" where
  "GetIncidentAlert T c incidentID alertID =
     getIncidentAlertWithContext T c Background incidentID alertID"

definition GetIncidentAlertWithContext ::
  "'a gotype \<Rightarrow> Client \<Rightarrow> context \<Rightarrow> string \<Rightarrow> string
     \<Rightarrow> (error + 'a IncidentAlertResponse) \<times> Client" where
  "GetIncidentAlertWithContext T c ctx incidentID alertID =
     (case getIncidentAlertWithContext T c Background incidentID alertID of
        (Inl err, c') \<Rightarrow> (Inl err, c')
      | (Inr (iar, resp), c') \<Rightarrow> (Inr iar, c'))"

definition manageIncidentAlertsWithContext ::
  "'a gotype \<Rightarrow> Client \<Rightarrow> context \<Rightarrow> string \<Rightarrow> IncidentAlertList
     \<Rightarrow> (error + 'a ListAlertsResponse \<times> response) \<times> Client" where
  "manageIncidentAlertsWithContext T c ctx incidentID alerts =
     (case put c ctx (''/incidents/'' @ incidentID @ ''/alerts/'') alerts Map.empty of
        (Inl err, c') \<Rightarrow> (Inl err, c')
      | (Inr resp, c') \<Rightarrow>
          (case decodeJSON (ListAlertsResponse_type T) resp
                  (zero (ListAlertsResponse_type T)) of
             Inl err \<Rightarrow> (Inl err, c')
           | Inr result \<Rightarrow> (Inr (result, resp), c')))"

definition ManageIncidentAlerts ::
  "'a gotype \<Rightarrow> Client \<Rightarrow> string \<Rightarrow> IncidentAlertList
     \<Rightarrow> (error + 'a ListAlertsResponse \<times> response) \<times> Client" where
  "ManageIncidentAlerts T c incidentID alerts =
     manageIncidentAlertsWithContext T c Background incidentID alerts"

definition ManageIncidentAlertsWithContext ::
  "'a gotype \<Rightarrow> Client \<Rightarrow> context \<Rightarrow> string \<Rightarrow> IncidentAlertList
     \<Rightarrow> (error + 'a ListAlertsResponse) \<times> Client" where
  "ManageIncidentAlertsWithContext T c ctx incidentID alerts =
     (case manageIncidentAlertsWithContext T c Background incidentID alerts of
        (Inl err, c') \<Rightarrow> (Inl err, c')
      | (Inr (lar, resp), c') \<Rightarrow> (Inr lar, c'))"

subsection \<open>Reading a query string back\<close>

text \<open>
  incident.go only writes query strings. To state that an encoded filter can be read
  back, the reader is the inverse that net/url itself provides: \<^verbatim>\<open>url.QueryUnescape\<close>
  and \<^verbatim>\<open>url.ParseQuery\<close>. A malformed escape or a semicolon is an error, here \<open>None\<close>.
\<close>

definition unhex :: "char \<Rightarrow> nat option" where
  "unhex ch =
     (let n = (of_char ch :: nat)
      in if 48 \<le> n \<and> n \<le> 57 then Some (n - 48)
         else if 97 \<le> n \<and> n \<le> 102 then Some (n - 97 + 10)
         else if 65 \<le> n \<and> n \<le> 70 then Some (n - 65 + 10)
         else None)"

fun QueryUnescape :: "string \<Rightarrow> string option" where
  "QueryUnescape [] = Some []"
| "QueryUnescape (ch # s) =
     (if ch = CHR ''%'' then
        (case s of
           h # l # rest \<Rightarrow>
             (case (unhex h, unhex l) of
                (Some a, Some b) \<Rightarrow> map_option ((#) (char_of (a * 16 + b))) (QueryUnescape rest)
              | _ \<Rightarrow> None)
         | _ \<Rightarrow> None)
      else if ch = CHR ''+'' then map_option ((#) CHR '' '') (QueryUnescape s)
      else map_option ((#) ch) (QueryUnescape s))"

text \<open>\<^verbatim>\<open>strings.Cut\<close> at the first occurrence of a one-byte separator.\<close>

definition cut_before :: "char \<Rightarrow> string \<Rightarrow> string" where
  "cut_before sep s = takeWhile (\<lambda>ch. ch \<noteq> sep) s"

definition cut_after :: "char \<Rightarrow> string \<Rightarrow> string" where
  "cut_after sep s = drop 1 (dropWhile (\<lambda>ch. ch \<noteq> sep) s)"

function parse_pairs :: "string \<Rightarrow> (string \<times> string) list option" where
  "parse_pairs q =
     (if q = [] then Some []
      else
        (let piece = cut_before CHR ''&'' q;
             rest = cut_after CHR ''&'' q
         in if CHR '';'' \<in> set piece then None
            else if piece = [] then parse_pairs rest
            else
              (case QueryUnescape (cut_before CHR ''='' piece) of
                 None \<Rightarrow> None
               | Some key \<Rightarrow>
                   (case QueryUnescape (cut_after CHR ''='' piece) of
                      None \<Rightarrow> None
                    | Some val \<Rightarrow>
                        (case parse_pairs rest of
                           None \<Rightarrow> None
                         | Some ps \<Rightarrow> Some ((key, val) # ps))))))"
  by pat_completeness auto
termination
proof -
  have shorter: "length (cut_after CHR ''&'' q) < length q" if "q \<noteq> []" for q :: string
  proof -
    have "length (dropWhile (\<lambda>ch. ch \<noteq> CHR ''&'') q) \<le> length q"
      by (rule length_dropWhile_le)
    moreover have "0 < length q"
      using that by simp
    ultimately show ?thesis
      unfolding cut_after_def length_drop by linarith
  qed
  show ?thesis
    by (relation "measure length") (simp_all add: shorter)
qed

declare parse_pairs.simps [simp del]

definition ParseQuery :: "string \<Rightarrow> Values option" where
  "ParseQuery q =
     (case parse_pairs q of
        None \<Rightarrow> None
      | Some ps \<Rightarrow> Some (fold (\<lambda>p. Add (fst p) (snd p)) ps []))"

text \<open>The values a query string holds under a key, in the order they stand in it.\<close>

definition query_values :: "string \<Rightarrow> string \<Rightarrow> string list option" where
  "query_values q key =
     (case ParseQuery q of
        None \<Rightarrow> None
      | Some v \<Rightarrow> Some (get_values v key))"

text \<open>The pairs of a query string that stand under a key, in the order they stand
  in it.\<close>

definition pairs_with_key :: "string \<Rightarrow> string \<Rightarrow> (string \<times> string) list option" where
  "pairs_with_key q key =
     (case parse_pairs q of
        None \<Rightarrow> None
      | Some ps \<Rightarrow> Some (filter (\<lambda>p. fst p = key) ps))"

text \<open>The bytes that separate the parts of a query string.\<close>

definition separator :: "char \<Rightarrow> bool" where
  "separator ch = (ch = CHR ''&'' \<or> ch = CHR ''='' \<or> ch = CHR '';'')"

subsection \<open>Zero values and envelopes\<close>

text \<open>The option values with every field at its zero value (the one for the alert
  options is defined with \<^verbatim>\<open>ListIncidentAlerts\<close>, which passes it).\<close>

definition ListIncidentsOptions_zero :: ListIncidentsOptions where
  "ListIncidentsOptions_zero =
     \<lparr>Limit = 0, Offset = 0, More = False, Total = 0,
      ListIncidentsOptions.Since = [], ListIncidentsOptions.Until = [], DateRange = [],
      ListIncidentsOptions.Statuses = [], IncidentKey = [], ServiceIDs = [], TeamIDs = [],
      UserIDs = [], Urgencies = [], ListIncidentsOptions.TimeZone = [],
      ListIncidentsOptions.SortBy = [], ListIncidentsOptions.Includes = []\<rparr>"

definition ListIncidentLogEntriesOptions_zero :: ListIncidentLogEntriesOptions where
  "ListIncidentLogEntriesOptions_zero =
     \<lparr>Limit = 0, Offset = 0, More = False, Total = 0,
      ListIncidentLogEntriesOptions.Includes = [], IsOverview = False,
      ListIncidentLogEntriesOptions.TimeZone = [], ListIncidentLogEntriesOptions.Since = [],
      ListIncidentLogEntriesOptions.Until = []\<rparr>"

text \<open>A request body that is a JSON object with the single member \<open>key\<close>.\<close>

definition wrapped_under :: "string \<Rightarrow> json option \<Rightarrow> bool" where
  "wrapped_under key b =
     (case b of
        Some (JObj [(k, payload)]) \<Rightarrow> k = key
      | _ \<Rightarrow> False)"

section \<open>What the operations hand to the gateway\<close>

lemmas gateway_defs = get_def post_def put_def do_request_def Let_def

text \<open>
  Five of the write operations name the acting user in a \<open>From\<close> header: incident
  creation, the bulk update, the merge, note creation and the responder request.
\<close>

lemma write_operations_with_From:
  "map req_headers (calls (snd (CreateIncidentWithContext T \<lparr>service = s, calls = []\<rparr> ctx from opts)))
     = [[''From'' \<mapsto> from]]"
  "map req_headers (calls (snd (ManageIncidentsWithContext T \<lparr>service = s, calls = []\<rparr> ctx from incidents)))
     = [[''From'' \<mapsto> from]]"
  "map req_headers (calls (snd (MergeIncidentsWithContext T \<lparr>service = s, calls = []\<rparr> ctx from id' sources)))
     = [[''From'' \<mapsto> from]]"
  "map req_headers (calls (snd (CreateIncidentNoteWithContext \<lparr>service = s, calls = []\<rparr> ctx id' note)))
     = [[''From'' \<mapsto> Summary (User note)]]"
  "map req_headers (calls (snd (ResponderRequestWithContext T' \<lparr>service = s, calls = []\<rparr> ctx id' ropts)))
     = [[''From'' \<mapsto> From ropts]]"
  by (simp_all add: CreateIncidentWithContext_def ManageIncidentsWithContext_def
        MergeIncidentsWithContext_def CreateIncidentNoteWithContext_def
        ResponderRequestWithContext_def gateway_defs split: sum.splits prod.splits)

text \<open>
  C2 (every write operation sends a \<open>From\<close> header). The code does not do this for two
  of them: the snooze and the alert management hand the gateway a request with no
  extra header at all (\<^verbatim>\<open>nil\<close> in the source), so no \<open>From\<close> header is sent.
\<close>

theorem Snooze_and_manage_alerts_send_no_From:
  "calls (snd (SnoozeIncidentWithContext T c ctx id' duration)) =
     calls c @ [\<lparr>req_ctx = ctx, req_method = POST,
                 req_path = ''/incidents/'' @ id' @ ''/snooze'',
                 req_body = Some (JObj [(''duration'', JNum (uint duration))]),
                 req_headers = Map.empty\<rparr>]
   \<and> calls (snd (manageIncidentAlertsWithContext T' c ctx id' alerts)) =
     calls c @ [\<lparr>req_ctx = ctx, req_method = PUT,
                 req_path = ''/incidents/'' @ id' @ ''/alerts/'',
                 req_body = Some alerts,
                 req_headers = Map.empty\<rparr>]"
  by (simp add: SnoozeIncidentWithContext_def manageIncidentAlertsWithContext_def gateway_defs
           split: sum.splits prod.splits)

text \<open>
  The operations that take a context hand it to the gateway unchanged, apart from the
  two alert operations of C3.
\<close>

lemma context_is_passed_on:
  "map req_ctx (calls (snd (ListIncidentsWithContext T \<lparr>service = s, calls = []\<rparr> ctx lopts))) = [ctx]"
  "map req_ctx (calls (snd (CreateIncidentWithContext T \<lparr>service = s, calls = []\<rparr> ctx from opts))) = [ctx]"
  "map req_ctx (calls (snd (ManageIncidentsWithContext T \<lparr>service = s, calls = []\<rparr> ctx from incidents))) = [ctx]"
  "map req_ctx (calls (snd (MergeIncidentsWithContext T \<lparr>service = s, calls = []\<rparr> ctx from id' sources))) = [ctx]"
  "map req_ctx (calls (snd (GetIncidentWithContext T \<lparr>service = s, calls = []\<rparr> ctx id'))) = [ctx]"
  "map req_ctx (calls (snd (ListIncidentNotesWithContext \<lparr>service = s, calls = []\<rparr> ctx id'))) = [ctx]"
  "map req_ctx (calls (snd (ListIncidentAlertsWithContext Ta \<lparr>service = s, calls = []\<rparr> ctx id' aopts))) = [ctx]"
  "map req_ctx (calls (snd (CreateIncidentNoteWithContext \<lparr>service = s, calls = []\<rparr> ctx id' note))) = [ctx]"
  "map req_ctx (calls (snd (SnoozeIncidentWithContext T \<lparr>service = s, calls = []\<rparr> ctx id' duration))) = [ctx]"
  "map req_ctx (calls (snd (ListIncidentLogEntriesWithContext Tl \<lparr>service = s, calls = []\<rparr> ctx id' eopts))) = [ctx]"
  "map req_ctx (calls (snd (ResponderRequestWithContext Tr \<lparr>service = s, calls = []\<rparr> ctx id' ropts))) = [ctx]"
  by (simp_all add: ListIncidentsWithContext_def CreateIncidentWithContext_def
        ManageIncidentsWithContext_def MergeIncidentsWithContext_def GetIncidentWithContext_def
        ListIncidentNotesWithContext_def ListIncidentAlertsWithContext_def
        CreateIncidentNoteWithContext_def SnoozeIncidentWithContext_def
        ListIncidentLogEntriesWithContext_def ResponderRequestWithContext_def gateway_defs
        split: sum.splits prod.splits option.splits)

text \<open>
  C3 (the gateway call runs under the context the caller supplied). The code does not
  do this for \<^verbatim>\<open>GetIncidentAlertWithContext\<close> and \<^verbatim>\<open>ManageIncidentAlertsWithContext\<close>: both
  drop their \<open>ctx\<close> and call the unexported function with \<^verbatim>\<open>context.Background()\<close>.
  Whatever context the caller supplies, the request reaches the gateway under
  \<open>Background\<close>; so against a gateway that aborts every call whose context is not
  \<open>Background\<close>, the call made under the cancelled context \<open>Derived 1\<close> still goes through
  and returns a decoded result.
\<close>

theorem alert_operations_run_under_Background:
  "calls (snd (GetIncidentAlertWithContext T c ctx incidentID alertID)) =
     calls c @ [\<lparr>req_ctx = Background, req_method = GET,
                 req_path = ''/incidents/'' @ incidentID @ ''/alerts/'' @ alertID,
                 req_body = None, req_headers = Map.empty\<rparr>]
   \<and> calls (snd (ManageIncidentAlertsWithContext T c ctx incidentID alerts)) =
     calls c @ [\<lparr>req_ctx = Background, req_method = PUT,
                 req_path = ''/incidents/'' @ incidentID @ ''/alerts/'',
                 req_body = Some alerts, req_headers = Map.empty\<rparr>]
   \<and> fst (GetIncidentAlertWithContext T
            \<lparr>service = (\<lambda>r. if req_ctx r = Background
                              then Inr \<lparr>resp_body = Some (JObj [])\<rparr>
                              else Inl Cancelled),
             calls = []\<rparr>
            (Derived 1) ''Q1'' ''A1'') = Inr \<lparr>IncidentAlert = None\<rparr>"
  by (simp add: GetIncidentAlertWithContext_def getIncidentAlertWithContext_def
        ManageIncidentAlertsWithContext_def manageIncidentAlertsWithContext_def gateway_defs
        decodeJSON_def IncidentAlertResponse_type_def struct_type_def
           split: sum.splits prod.splits)

text \<open>The request paths of the operations other than the alert management.\<close>

lemma request_paths:
  "map req_path (calls (snd (ListIncidentsWithContext T \<lparr>service = s, calls = []\<rparr> ctx lopts)))
     = [''/incidents?'' @ Encode (ListIncidentsOptions_Values lopts)]"
  "map req_path (calls (snd (CreateIncidentWithContext T \<lparr>service = s, calls = []\<rparr> ctx from opts)))
     = [''/incidents'']"
  "map req_path (calls (snd (ManageIncidentsWithContext T \<lparr>service = s, calls = []\<rparr> ctx from incidents)))
     = [''/incidents'']"
  "map req_path (calls (snd (MergeIncidentsWithContext T \<lparr>service = s, calls = []\<rparr> ctx from id' sources)))
     = [''/incidents/'' @ id' @ ''/merge'']"
  "map req_path (calls (snd (GetIncidentWithContext T \<lparr>service = s, calls = []\<rparr> ctx id')))
     = [''/incidents/'' @ id']"
  "map req_path (calls (snd (ListIncidentNotesWithContext \<lparr>service = s, calls = []\<rparr> ctx id')))
     = [''/incidents/'' @ id' @ ''/notes'']"
  "map req_path (calls (snd (ListIncidentAlertsWithContext Ta \<lparr>service = s, calls = []\<rparr> ctx id' aopts)))
     = [''/incidents/'' @ id' @ ''/alerts?'' @ Encode (ListIncidentAlertsOptions_Values aopts)]"
  "map req_path (calls (snd (CreateIncidentNoteWithContext \<lparr>service = s, calls = []\<rparr> ctx id' note)))
     = [''/incidents/'' @ id' @ ''/notes'']"
  "map req_path (calls (snd (SnoozeIncidentWithContext T \<lparr>service = s, calls = []\<rparr> ctx id' duration)))
     = [''/incidents/'' @ id' @ ''/snooze'']"
  "map req_path (calls (snd (ListIncidentLogEntriesWithContext Tl \<lparr>service = s, calls = []\<rparr> ctx id' eopts)))
     = [''/incidents/'' @ id' @ ''/log_entries?'' @ Encode (ListIncidentLogEntriesOptions_Values eopts)]"
  "map req_path (calls (snd (ResponderRequestWithContext Tr \<lparr>service = s, calls = []\<rparr> ctx id' ropts)))
     = [''/incidents/'' @ id' @ ''/responder_requests'']"
  "map req_path (calls (snd (getIncidentAlertWithContext Ta \<lparr>service = s, calls = []\<rparr> ctx id' alertID)))
     = [''/incidents/'' @ id' @ ''/alerts/'' @ alertID]"
  by (simp_all add: ListIncidentsWithContext_def CreateIncidentWithContext_def
        ManageIncidentsWithContext_def MergeIncidentsWithContext_def GetIncidentWithContext_def
        ListIncidentNotesWithContext_def ListIncidentAlertsWithContext_def
        CreateIncidentNoteWithContext_def SnoozeIncidentWithContext_def
        ListIncidentLogEntriesWithContext_def ResponderRequestWithContext_def
        getIncidentAlertWithContext_def gateway_defs
        split: sum.splits prod.splits option.splits)

text \<open>
  C9 (every path follows the scheme, with no extra separator). The code breaks the
  scheme in the alert management: the path of the sub-resource collection is built as
  \<^verbatim>\<open>"/incidents/"+incidentID+"/alerts/"\<close>, with a slash after \<^verbatim>\<open>alerts\<close>. For the incident
  \<^verbatim>\<open>Q1\<close> the gateway is handed \<^verbatim>\<open>/incidents/Q1/alerts/\<close>, where the scheme and the listing
  of the same collection give \<^verbatim>\<open>/incidents/Q1/alerts\<close>.
\<close>

theorem manageIncidentAlerts_path_has_trailing_slash:
  "map req_path (calls (snd (manageIncidentAlertsWithContext T
       \<lparr>service = s, calls = []\<rparr> ctx ''Q1'' alerts))) = [''/incidents/Q1/alerts/'']"
  by (simp add: manageIncidentAlertsWithContext_def gateway_defs
           split: sum.splits prod.splits)

section \<open>Request envelopes\<close>

text \<open>
  C7 as stated (every single-item write payload, the responder request included, goes
  out under a single key named after the resource) fails on the responder request: the
  options struct is handed to the gateway as it is, so the body has the three members
  \<^verbatim>\<open>message\<close>, \<^verbatim>\<open>requester_id\<close> and \<^verbatim>\<open>responder_request_targets\<close> at the top level and no
  \<^verbatim>\<open>responder_request\<close> key.
\<close>

theorem responder_request_payload_not_wrapped:
  "\<not> wrapped_under ''responder_request''
       (req_body (last (calls (snd (ResponderRequestWithContext string_type
          \<lparr>service = (\<lambda>r. Inl TransportError), calls = []\<rparr> Background ''Q1''
          \<lparr>From = ''ops@example.com'', Message = ''help'', RequesterID = ''U1'',
           Targets = JArr []\<rparr>)))))"
  by (simp add: ResponderRequestWithContext_def gateway_defs wrapped_under_def
        marshal_ResponderRequestOptions_def)

text \<open>
  C7, amended: incident creation sends its payload as the only member of an object,
  under the key \<^verbatim>\<open>incident\<close>; note creation, in both forms, sends the note as the only
  member of an object, under the key \<^verbatim>\<open>note\<close>; the responder request sends its options
  unwrapped, as the object with the members \<^verbatim>\<open>message\<close>, \<^verbatim>\<open>requester_id\<close> and
  \<^verbatim>\<open>responder_request_targets\<close>.
\<close>

theorem single_item_payload_envelopes:
  "map req_body (calls (snd (CreateIncidentWithContext T \<lparr>service = s, calls = []\<rparr> ctx from opts)))
     = [Some (JObj [(''incident'', opts)])]
   \<and> wrapped_under ''incident'' (Some (JObj [(''incident'', opts)]))
   \<and> map req_body (calls (snd (CreateIncidentNoteWithContext \<lparr>service = s, calls = []\<rparr> ctx id' note)))
     = [Some (JObj [(''note'', marshal_IncidentNote note)])]
   \<and> map req_body (calls (snd (CreateIncidentNote \<lparr>service = s, calls = []\<rparr> id' note)))
     = [Some (JObj [(''note'', marshal_IncidentNote note)])]
   \<and> wrapped_under ''note'' (Some (JObj [(''note'', marshal_IncidentNote note)]))
   \<and> map req_body (calls (snd (ResponderRequestWithContext T' \<lparr>service = s, calls = []\<rparr> ctx id' ropts)))
     = [Some (JObj [(''message'', JStr (Message ropts)),
                    (''requester_id'', JStr (RequesterID ropts)),
                    (''responder_request_targets'', Targets ropts)])]"
  by (simp add: CreateIncidentWithContext_def CreateIncidentNoteWithContext_def
        CreateIncidentNote_def ResponderRequestWithContext_def gateway_defs
        marshal_ResponderRequestOptions_def wrapped_under_def
           split: sum.splits prod.splits)

text \<open>
  C8: the bulk update hands the gateway one PUT to \<^verbatim>\<open>/incidents\<close> whose body is the list
  of mutation descriptors as the only member of an object, under the plural key
  \<^verbatim>\<open>incidents\<close>, with the \<open>From\<close> header; and it decodes the answer as the list envelope:
  the array under the plural key \<^verbatim>\<open>incidents\<close> becomes the \<open>Incidents\<close> of the result,
  element by element.
\<close>

theorem ManageIncidents_bulk_update:
  "calls (snd (ManageIncidentsWithContext T c ctx from incidents)) =
     calls c @ [\<lparr>req_ctx = ctx, req_method = PUT, req_path = ''/incidents'',
                 req_body = Some (JObj [(''incidents'', incidents)]),
                 req_headers = [''From'' \<mapsto> from]\<rparr>]
   \<and> wrapped_under ''incidents'' (Some (JObj [(''incidents'', incidents)]))
   \<and> fst (ManageIncidentsWithContext T
            \<lparr>service = (\<lambda>r. Inr \<lparr>resp_body = Some (JObj [(''incidents'', JArr js)])\<rparr>),
             calls = cs\<rparr> ctx from incidents) =
       (case decode_elements T js of
          Inl err \<Rightarrow> Inl err
        | Inr xs \<Rightarrow> Inr \<lparr>Limit = 0, Offset = 0, More = False, Total = 0, Incidents = xs\<rparr>)"
  by (simp add: ManageIncidentsWithContext_def gateway_defs wrapped_under_def
        decodeJSON_def ListIncidentsResponse_type_def struct_type_def APIListObject_fields_def
        find_field_def field_def slice_type_def
           split: sum.splits prod.splits)

text \<open>
  C10: note creation, in both forms, takes the \<open>From\<close> header from the \<open>Summary\<close> of the
  note's own \<open>User\<close>; there is no actor parameter. A note whose user summary is the empty
  string is sent all the same, with the empty string as its \<open>From\<close> header, and the
  client adds no error of its own: the result is what the answer of the service decodes
  to (here a note with the id \<^verbatim>\<open>N1\<close>), and \<^verbatim>\<open>nil\<close> in the deprecated form.
\<close>

theorem CreateIncidentNote_From_is_user_summary:
  "calls (snd (CreateIncidentNoteWithContext c ctx id' note)) =
     calls c @ [\<lparr>req_ctx = ctx, req_method = POST,
                 req_path = ''/incidents/'' @ id' @ ''/notes'',
                 req_body = Some (JObj [(''note'', marshal_IncidentNote note)]),
                 req_headers = [''From'' \<mapsto> Summary (User note)]\<rparr>]
   \<and> calls (snd (CreateIncidentNote c id' note)) =
     calls c @ [\<lparr>req_ctx = Background, req_method = POST,
                 req_path = ''/incidents/'' @ id' @ ''/notes'',
                 req_body = Some (JObj [(''note'', marshal_IncidentNote note)]),
                 req_headers = [''From'' \<mapsto> Summary (User note)]\<rparr>]
   \<and> map (\<lambda>r. req_headers r ''From'')
         (calls (snd (CreateIncidentNoteWithContext \<lparr>service = s, calls = []\<rparr> ctx id'
                        (note\<lparr>User := (User note)\<lparr>Summary := []\<rparr>\<rparr>)))) = [Some []]
   \<and> fst (CreateIncidentNoteWithContext
            \<lparr>service = (\<lambda>r. Inr \<lparr>resp_body =
                                  Some (JObj [(''note'', JObj [(''id'', JStr ''N1'')])])\<rparr>),
             calls = []\<rparr> ctx id' (note\<lparr>User := (User note)\<lparr>Summary := []\<rparr>\<rparr>))
       = Inr (IncidentNote_zero\<lparr>IncidentNote.ID := ''N1''\<rparr>)
   \<and> fst (CreateIncidentNote \<lparr>service = (\<lambda>r. Inr \<lparr>resp_body = None\<rparr>), calls = []\<rparr> id'
            (note\<lparr>User := (User note)\<lparr>Summary := []\<rparr>\<rparr>)) = None"
  by (simp add: CreateIncidentNoteWithContext_def CreateIncidentNote_def gateway_defs
        decodeJSON_def CreateIncidentNoteResponse_type_def IncidentNote_type_def struct_type_def
        find_field_def field_def string_type_def IncidentNote_zero_def
           split: sum.splits prod.splits)

section \<open>Response envelopes\<close>

text \<open>
  \<^verbatim>\<open>GetIncidentWithContext\<close> and \<^verbatim>\<open>ListIncidentNotesWithContext\<close> decode into a map and look
  the envelope key up: on a well-formed object without the key they return the error
  that reports the missing key.
\<close>

lemma missing_key_detected_by_map_lookup:
  "fst (GetIncidentWithContext T
          \<lparr>service = (\<lambda>r. Inr \<lparr>resp_body = Some (JObj [])\<rparr>), calls = []\<rparr> ctx id')
     = Inl (MissingEnvelopeKey ''JSON response does not have incident field'')"
  "fst (ListIncidentNotesWithContext
          \<lparr>service = (\<lambda>r. Inr \<lparr>resp_body = Some (JObj [])\<rparr>), calls = []\<rparr> ctx id')
     = Inl (MissingEnvelopeKey ''JSON response does not have notes field'')"
  by (simp_all add: GetIncidentWithContext_def ListIncidentNotesWithContext_def gateway_defs
        decodeJSON_def map_type_def)

text \<open>
  C1 (every decoding operation reports a missing envelope key as an error and never
  returns a zero-valued entity). The code does not do this where it decodes into a
  response struct: on the well-formed answer \<^verbatim>\<open>{}\<close> no field of the struct is set, no
  error arises, and the operation returns the zero value. So it is for incident
  creation, for any Incident type, and for note creation, whose result is the note with
  every field empty.
\<close>

theorem missing_envelope_key_yields_zero_value:
  "fst (CreateIncidentWithContext T
          \<lparr>service = (\<lambda>r. Inr \<lparr>resp_body = Some (JObj [])\<rparr>), calls = []\<rparr>
          ctx from opts) = Inr (zero T)
   \<and> fst (CreateIncidentNoteWithContext
          \<lparr>service = (\<lambda>r. Inr \<lparr>resp_body = Some (JObj [])\<rparr>), calls = []\<rparr>
          ctx id' note) = Inr IncidentNote_zero"
  by (simp add: CreateIncidentWithContext_def CreateIncidentNoteWithContext_def gateway_defs
        decodeJSON_def createIncidentResponse_type_def CreateIncidentNoteResponse_type_def
        struct_type_def)

section \<open>The query encoder\<close>

subsection \<open>Escaping can be undone\<close>

lemma below_16:
  "d < 16 \<Longrightarrow> d \<in> {0, 1, 2, 3, 4, 5, 6, 7, 8, 9, 10, 11, 12, 13, 14, 15 :: nat}"
  by simp arith

lemma unhex_upperhex: "d < 16 \<Longrightarrow> unhex (upperhex d) = Some d"
  by (drule below_16) (auto simp: upperhex_def unhex_def)

lemma upperhex_no_separator: "d < 16 \<Longrightarrow> \<not> separator (upperhex d)"
  by (drule below_16) (auto simp: upperhex_def separator_def)

lemma unescaped_char:
  "\<not> shouldEscape ch \<Longrightarrow> \<not> separator ch \<and> ch \<noteq> CHR ''%'' \<and> ch \<noteq> CHR ''+''"
  by (auto simp: shouldEscape_def alphanum_def separator_def Let_def split: if_splits)

lemma high_digit: "(of_char ch :: nat) div 16 < 16"
  by (rule less_mult_imp_div_less) (simp add: nat_of_char_less_256)

lemma low_digit: "(of_char ch :: nat) mod 16 < 16"
  by simp

lemma QueryEscape_no_separator: "ch \<in> set (QueryEscape s) \<Longrightarrow> \<not> separator ch"
proof (induction s)
  case Nil
  then show ?case by simp
next
  case (Cons a s)
  then show ?case
    using upperhex_no_separator [OF high_digit, of a] upperhex_no_separator [OF low_digit, of a]
      unescaped_char [of a]
    by (auto simp: separator_def split: if_splits)
qed

lemma QueryUnescape_QueryEscape: "QueryUnescape (QueryEscape s) = Some s"
proof (induction s)
  case Nil
  then show ?case by simp
next
  case (Cons a s)
  have recompose: "char_of ((of_char a :: nat) div 16 * 16 + of_char a mod 16) = a"
    by simp
  show ?case
  proof (cases "shouldEscape a")
    case True
    then show ?thesis
      using Cons.IH unhex_upperhex [OF high_digit, of a] unhex_upperhex [OF low_digit, of a]
        recompose
      by simp
  next
    case False
    then show ?thesis
      using Cons.IH unescaped_char [of a] by simp
  qed
qed

subsection \<open>An encoded query string parses back into its pairs\<close>

lemma cut_before_found: "sep \<notin> set a \<Longrightarrow> cut_before sep (a @ sep # r) = a"
  by (induction a) (auto simp: cut_before_def)

lemma cut_after_found: "sep \<notin> set a \<Longrightarrow> cut_after sep (a @ sep # r) = r"
  by (induction a) (auto simp: cut_after_def)

lemma cut_before_absent: "sep \<notin> set a \<Longrightarrow> cut_before sep a = a"
  by (induction a) (auto simp: cut_before_def)

lemma cut_after_absent: "sep \<notin> set a \<Longrightarrow> cut_after sep a = []"
  by (induction a) (auto simp: cut_after_def)

lemma encode_pair_chars:
  "CHR ''&'' \<notin> set (encode_pair p)" "CHR '';'' \<notin> set (encode_pair p)" "encode_pair p \<noteq> []"
  using QueryEscape_no_separator [of "CHR ''&''"] QueryEscape_no_separator [of "CHR '';''"]
  by (auto simp: encode_pair_def separator_def)

lemma encode_pair_cut:
  "cut_before CHR ''='' (encode_pair p) = QueryEscape (fst p)"
  "cut_after CHR ''='' (encode_pair p) = QueryEscape (snd p)"
proof -
  have "CHR ''='' \<notin> set (QueryEscape (fst p))"
    using QueryEscape_no_separator [of "CHR ''=''"] by (auto simp: separator_def)
  then show "cut_before CHR ''='' (encode_pair p) = QueryEscape (fst p)"
    and "cut_after CHR ''='' (encode_pair p) = QueryEscape (snd p)"
    by (simp_all add: encode_pair_def cut_before_found cut_after_found)
qed

lemma parse_one_pair: "parse_pairs (encode_pair p) = Some [p]"
  using encode_pair_chars [of p]
  by (subst parse_pairs.simps)
     (simp add: cut_before_absent cut_after_absent encode_pair_cut QueryUnescape_QueryEscape
        parse_pairs.simps [of "[]"])

lemma parse_first_pair:
  "parse_pairs (encode_pair p @ CHR ''&'' # r) =
     (case parse_pairs r of None \<Rightarrow> None | Some ps \<Rightarrow> Some (p # ps))"
  using encode_pair_chars [of p]
  by (subst parse_pairs.simps)
     (simp add: cut_before_found cut_after_found encode_pair_cut QueryUnescape_QueryEscape
        split: option.splits)

lemma parse_pairs_join: "parse_pairs (join_amp (map encode_pair ps)) = Some ps"
proof (induction ps)
  case Nil
  then show ?case by (simp add: parse_pairs.simps [of "[]"])
next
  case (Cons p ps)
  then show ?case
    by (cases ps) (simp_all add: parse_one_pair parse_first_pair)
qed

subsection \<open>The values under a key\<close>

lemma get_values_Nil: "get_values [] k = []"
  by (simp add: get_values_def)

lemma get_values_Add:
  "get_values (Add k x v) k' = (if k' = k then get_values v k @ [x] else get_values v k')"
  by (simp add: get_values_def Add_def update_conv')

lemma get_values_fold_Add:
  "get_values (fold (\<lambda>p. Add (fst p) (snd p)) ps v) k =
     get_values v k @ map snd (filter (\<lambda>p. fst p = k) ps)"
  by (induction ps arbitrary: v) (simp_all add: get_values_Add)

lemma filter_key_concat:
  "distinct ks \<Longrightarrow>
     filter (\<lambda>p. fst p = k) (concat (map (\<lambda>k'. map (Pair k') (f k')) ks)) =
       (if k \<in> set ks then map (Pair k) (f k) else [])"
proof (induction ks)
  case Nil
  then show ?case by simp
next
  case (Cons a ks)
  have "filter (\<lambda>p. fst p = k) (map (Pair a) (f a)) = (if a = k then map (Pair a) (f a) else [])"
    by (induction "f a") (auto simp: filter_empty_conv)
  with Cons show ?case by auto
qed

lemma get_values_no_key: "k \<notin> fst ` set v \<Longrightarrow> get_values v k = []"
  by (simp add: get_values_def map_of_eq_None_iff [THEN iffD2])

lemma pairs_under_key:
  "filter (\<lambda>p. fst p = k) (pairs v) = map (Pair k) (get_values v k)"
  by (simp add: pairs_def sorted_keys_def filter_key_concat get_values_no_key)

text \<open>
  Whatever the values, the encoded string parses back into the pairs that were written,
  and the values it holds under a key are the values of the map under that key.
\<close>

lemma Encode_read_back:
  "parse_pairs (Encode v) = Some (pairs v)"
  "query_values (Encode v) k = Some (get_values v k)"
  "pairs_with_key (Encode v) k = Some (map (Pair k) (get_values v k))"
  by (simp_all add: Encode_def parse_pairs_join query_values_def ParseQuery_def
        pairs_with_key_def get_values_fold_Add pairs_under_key get_values_Nil comp_def)

text \<open>The encoded string depends on the map alone, not on the order in which the
  association list holds its keys.\<close>

lemma Encode_depends_on_map:
  assumes "map_of v = map_of v'"
  shows "Encode v = Encode v'"
proof -
  have "fst ` set v = fst ` set v'"
    using assms by (metis dom_map_of_conv_image_fst)
  then have "sorted_keys v = sorted_keys v'"
    by (simp add: sorted_keys_def sorted_list_of_set_sort_remdups [symmetric])
  moreover have "get_values v = get_values v'"
    using assms by (simp add: get_values_def fun_eq_iff)
  ultimately show ?thesis
    by (simp add: Encode_def pairs_def)
qed

subsection \<open>The parameters of the option structs\<close>

lemma get_values_fold_Add_key:
  "get_values (fold (\<lambda>x. Add key x) xs v) k =
     (if k = key then get_values v k @ xs else get_values v k)"
  by (induction xs arbitrary: v) (simp_all add: get_values_Add)

lemma get_values_string_param:
  "get_values (string_param name s v) k =
     (if k = name then get_values v k @ (if s = [] then [] else [s]) else get_values v k)"
  by (simp add: string_param_def get_values_Add)

lemma get_values_brackets_param:
  "get_values (brackets_param name xs v) k =
     (if k = name @ ''[]'' then get_values v k @ xs else get_values v k)"
  by (simp add: brackets_param_def get_values_fold_Add_key)

lemma get_values_uint_param:
  "get_values (uint_param name n v) k =
     (if k = name then get_values v k @ (if n = 0 then [] else [decimal (unat n)])
      else get_values v k)"
  by (simp add: uint_param_def get_values_Add)

lemma get_values_bool_param:
  "get_values (bool_param name b v) k =
     (if k = name then get_values v k @ (if b then [''true''] else []) else get_values v k)"
  by (simp add: bool_param_def get_values_Add)

lemmas get_values_param =
  get_values_string_param get_values_brackets_param get_values_uint_param
  get_values_bool_param get_values_Nil

lemma ListIncidentsOptions_sequences:
  "get_values (ListIncidentsOptions_Values opts) ''statuses[]'' = ListIncidentsOptions.Statuses opts"
  "get_values (ListIncidentsOptions_Values opts) ''service_ids[]'' = ServiceIDs opts"
  "get_values (ListIncidentsOptions_Values opts) ''team_ids[]'' = TeamIDs opts"
  "get_values (ListIncidentsOptions_Values opts) ''user_ids[]'' = UserIDs opts"
  "get_values (ListIncidentsOptions_Values opts) ''urgencies[]'' = Urgencies opts"
  "get_values (ListIncidentsOptions_Values opts) ''include[]'' = ListIncidentsOptions.Includes opts"
  by (simp_all add: ListIncidentsOptions_Values_def reflect_fields_def APIListObject_params_def
        get_values_param)

text \<open>The same holds for the sequence fields of the two other option structs.\<close>

lemma other_options_sequences:
  "query_values (Encode (ListIncidentAlertsOptions_Values aopts)) ''statuses[]''
     = Some (ListIncidentAlertsOptions.Statuses aopts)"
  "query_values (Encode (ListIncidentAlertsOptions_Values aopts)) ''include[]''
     = Some (ListIncidentAlertsOptions.Includes aopts)"
  "query_values (Encode (ListIncidentLogEntriesOptions_Values eopts)) ''include[]''
     = Some (ListIncidentLogEntriesOptions.Includes eopts)"
  by (simp_all add: Encode_read_back ListIncidentAlertsOptions_Values_def
        ListIncidentLogEntriesOptions_Values_def reflect_fields_def APIListObject_params_def
        get_values_param)

text \<open>
  An example of the wire format: the keys come out sorted, and the brackets of a sequence
  key are percent-encoded like every other byte that is not a letter, a digit or one
  of \<^verbatim>\<open>- _ . ~\<close>.
\<close>

lemma example_three_statuses:
  "Encode (ListIncidentsOptions_Values
     (ListIncidentsOptions_zero\<lparr>Limit := 25,
        ListIncidentsOptions.Statuses := [''triggered'', ''acknowledged'', ''resolved'']\<rparr>))
   = ''limit=25&statuses%5B%5D=triggered&statuses%5B%5D=acknowledged&statuses%5B%5D=resolved''"
  by (simp add: ListIncidentsOptions_Values_def reflect_fields_def APIListObject_params_def
        ListIncidentsOptions_zero_def
        string_param_def brackets_param_def uint_param_def bool_param_def
        Add_def get_values_def decimal.simps digit_def
        Encode_def pairs_def sorted_keys_def encode_pair_def shouldEscape_def alphanum_def
        upperhex_def)

subsection \<open>The claims about the query encoder\<close>

text \<open>
  C4: for each of the three option structs, the value with every field at its zero
  value encodes to the empty query string; the request that \<^verbatim>\<open>ListIncidentsWithContext\<close>
  then makes has the path \<^verbatim>\<open>/incidents?\<close>, the collection path followed by the question
  mark and the empty query.
\<close>

theorem zero_options_encode_to_empty_query:
  "Encode (ListIncidentsOptions_Values ListIncidentsOptions_zero) = []
   \<and> Encode (ListIncidentAlertsOptions_Values ListIncidentAlertsOptions_zero) = []
   \<and> Encode (ListIncidentLogEntriesOptions_Values ListIncidentLogEntriesOptions_zero) = []
   \<and> map req_path (calls (snd (ListIncidentsWithContext T \<lparr>service = s, calls = []\<rparr> ctx
                                  ListIncidentsOptions_zero))) = [''/incidents?'']"
  by (simp add: ListIncidentsOptions_Values_def ListIncidentAlertsOptions_Values_def
        ListIncidentLogEntriesOptions_Values_def reflect_fields_def APIListObject_params_def
        ListIncidentsOptions_zero_def ListIncidentAlertsOptions_zero_def
        ListIncidentLogEntriesOptions_zero_def
        string_param_def brackets_param_def uint_param_def bool_param_def
        Encode_def pairs_def sorted_keys_def
        ListIncidentsWithContext_def gateway_defs split: sum.splits prod.splits)

text \<open>
  C5: for each sequence-valued filter field of the list options (statuses, service,
  team and user ids, urgencies, includes), the encoded query string holds, under the
  field's bracketed key, exactly one pair per element, in the order of the elements
  (first six equations); and reading the query string back gives, under that key, the
  sequence that was encoded (last six). This holds for the empty sequence too, which
  leaves no pair. On the wire the brackets are percent-encoded; the pairs are those
  that \<^verbatim>\<open>url.ParseQuery\<close> reads.
\<close>

theorem sequence_filters_round_trip:
  "pairs_with_key (Encode (ListIncidentsOptions_Values opts)) ''statuses[]''
     = Some (map (Pair ''statuses[]'') (ListIncidentsOptions.Statuses opts))
   \<and> pairs_with_key (Encode (ListIncidentsOptions_Values opts)) ''service_ids[]''
     = Some (map (Pair ''service_ids[]'') (ServiceIDs opts))
   \<and> pairs_with_key (Encode (ListIncidentsOptions_Values opts)) ''team_ids[]''
     = Some (map (Pair ''team_ids[]'') (TeamIDs opts))
   \<and> pairs_with_key (Encode (ListIncidentsOptions_Values opts)) ''user_ids[]''
     = Some (map (Pair ''user_ids[]'') (UserIDs opts))
   \<and> pairs_with_key (Encode (ListIncidentsOptions_Values opts)) ''urgencies[]''
     = Some (map (Pair ''urgencies[]'') (Urgencies opts))
   \<and> pairs_with_key (Encode (ListIncidentsOptions_Values opts)) ''include[]''
     = Some (map (Pair ''include[]'') (ListIncidentsOptions.Includes opts))
   \<and> query_values (Encode (ListIncidentsOptions_Values opts)) ''statuses[]''
     = Some (ListIncidentsOptions.Statuses opts)
   \<and> query_values (Encode (ListIncidentsOptions_Values opts)) ''service_ids[]''
     = Some (ServiceIDs opts)
   \<and> query_values (Encode (ListIncidentsOptions_Values opts)) ''team_ids[]''
     = Some (TeamIDs opts)
   \<and> query_values (Encode (ListIncidentsOptions_Values opts)) ''user_ids[]''
     = Some (UserIDs opts)
   \<and> query_values (Encode (ListIncidentsOptions_Values opts)) ''urgencies[]''
     = Some (Urgencies opts)
   \<and> query_values (Encode (ListIncidentsOptions_Values opts)) ''include[]''
     = Some (ListIncidentsOptions.Includes opts)"
  by (simp add: Encode_read_back ListIncidentsOptions_sequences)

text \<open>
  C6: encoding is deterministic. A Go map has no fixed iteration order, so two runs on
  the same options value may hold and walk the same map of values in different orders;
  the encoded query string is the same for every association list that stands for the
  map built from the options.
\<close>

theorem query_encoding_deterministic:
  assumes "map_of v = map_of (ListIncidentsOptions_Values opts)"
  shows "Encode v = Encode (ListIncidentsOptions_Values opts)"
  using assms by (rule Encode_depends_on_map)

text \<open>
  C6 at a concrete value: the options with a limit of 25 and two statuses, and the same
  map of values with its keys held in the other order.
\<close>

theorem query_encoding_deterministic_witness:
  "map_of [(''limit'', [''25'']), (''statuses[]'', [''triggered'', ''resolved''])]
     = map_of (ListIncidentsOptions_Values
         (ListIncidentsOptions_zero\<lparr>Limit := 25,
            ListIncidentsOptions.Statuses := [''triggered'', ''resolved'']\<rparr>))
   \<and> Encode [(''limit'', [''25'']), (''statuses[]'', [''triggered'', ''resolved''])]
     = Encode (ListIncidentsOptions_Values
         (ListIncidentsOptions_zero\<lparr>Limit := 25,
            ListIncidentsOptions.Statuses := [''triggered'', ''resolved'']\<rparr>))"
proof -
  have same: "map_of [(''limit'', [''25'']), (''statuses[]'', [''triggered'', ''resolved''])]
     = map_of (ListIncidentsOptions_Values
         (ListIncidentsOptions_zero\<lparr>Limit := 25,
            ListIncidentsOptions.Statuses := [''triggered'', ''resolved'']\<rparr>))"
    by (simp add: ListIncidentsOptions_Values_def reflect_fields_def APIListObject_params_def
        ListIncidentsOptions_zero_def
        string_param_def brackets_param_def uint_param_def bool_param_def
        Add_def get_values_def decimal.simps digit_def fun_eq_iff)
  from same query_encoding_deterministic [OF same] show ?thesis by (rule conjI)
qed

end
